theory Spec2Isabelle
  imports Complex_Main "HOL-Library.AList"
begin

section \<open>Strings, bytes and numerals\<close>

text \<open>
  A JavaScript string is modelled as the list of its Unicode code points (a surrogate
  pair of the UTF-16 representation appears as its single astral code point, so an
  entry in D800..DFFF stands for an unpaired surrogate). A byte is a natural number
  below 256. Text constants of the source are written \<open>js ''...''\<close>.
\<close>

type_synonym jsstring = "nat list"
type_synonym byte = nat

definition js :: "string \<Rightarrow> jsstring" where
  "js s = map of_char s"

definition CRLF :: jsstring where
  "CRLF = [13, 10]"

text \<open>\<open>s.length\<close> counts UTF-16 code units: two for a code point outside the BMP.\<close>

definition js_length :: "jsstring \<Rightarrow> nat" where
  "js_length s = sum_list (map (\<lambda>c. if c < 0x10000 then 1 else 2) s)"



text \<open>Number to string conversion of a non-negative integer (\<open>'' + n\<close>).\<close>

fun decimal :: "nat \<Rightarrow> jsstring" where
  "decimal n = (if n < 10 then [48 + n] else decimal (n div 10) @ [48 + n mod 10])"

declare decimal.simps [simp del]

definition int_to_string :: "int \<Rightarrow> jsstring" where
  "int_to_string i = (if i < 0 then 45 # decimal (nat (- i)) else decimal (nat i))"

subsection \<open>The platform's UTF-8 codec\<close>

text \<open>
  \<open>getBytes('UTF-8')\<close> and the \<open>OutputStreamWriter\<close> encode a string as UTF-8; an
  unpaired surrogate is replaced by \<open>?\<close> (byte 63).
\<close>

definition utf8_char :: "nat \<Rightarrow> byte list" where
  "utf8_char c =
     (if c < 0x80 then [c]
      else if c < 0x800 then [0xC0 + c div 0x40, 0x80 + c mod 0x40]
      else if 0xD800 \<le> c \<and> c < 0xE000 then [63]
      else if c < 0x10000 then
        [0xE0 + c div 0x1000, 0x80 + (c div 0x40) mod 0x40, 0x80 + c mod 0x40]
      else if c < 0x110000 then
        [0xF0 + c div 0x40000, 0x80 + (c div 0x1000) mod 0x40,
         0x80 + (c div 0x40) mod 0x40, 0x80 + c mod 0x40]
      else [63])"

definition utf8_encode :: "jsstring \<Rightarrow> byte list" where
  "utf8_encode s = concat (map utf8_char s)"

text \<open>
  \<open>new String(buf, UTF-8)\<close> decodes; a byte that does not start a well-formed
  sequence is replaced by U+FFFD and decoding resumes at the next byte.
\<close>

definition cont :: "byte \<Rightarrow> bool" where
  "cont b \<longleftrightarrow> 0x80 \<le> b \<and> b < 0xC0"

fun utf8_decode :: "byte list \<Rightarrow> jsstring" where
  "utf8_decode [] = []"
| "utf8_decode (b # bs) =
     (if b < 0x80 then b # utf8_decode bs
      else if 0xC2 \<le> b \<and> b < 0xE0 then
        (case bs of
           b1 # r \<Rightarrow>
             if cont b1 then ((b - 0xC0) * 0x40 + (b1 - 0x80)) # utf8_decode r
             else 0xFFFD # utf8_decode bs
         | _ \<Rightarrow> 0xFFFD # utf8_decode bs)
      else if 0xE0 \<le> b \<and> b < 0xF0 then
        (case bs of
           b1 # b2 # r \<Rightarrow>
             (let c = (b - 0xE0) * 0x1000 + (b1 - 0x80) * 0x40 + (b2 - 0x80)
              in if cont b1 \<and> cont b2 \<and> 0x800 \<le> c \<and> \<not> (0xD800 \<le> c \<and> c < 0xE000)
                 then c # utf8_decode r else 0xFFFD # utf8_decode bs)
         | _ \<Rightarrow> 0xFFFD # utf8_decode bs)
      else if 0xF0 \<le> b \<and> b < 0xF5 then
        (case bs of
           b1 # b2 # b3 # r \<Rightarrow>
             (let c = (b - 0xF0) * 0x40000 + (b1 - 0x80) * 0x1000
                      + (b2 - 0x80) * 0x40 + (b3 - 0x80)
              in if cont b1 \<and> cont b2 \<and> cont b3 \<and> 0x10000 \<le> c \<and> c < 0x110000
                 then c # utf8_decode r else 0xFFFD # utf8_decode bs)
         | _ \<Rightarrow> 0xFFFD # utf8_decode bs)
      else 0xFFFD # utf8_decode bs)"

section \<open>Frame codec: encoding a command\<close>

text \<open>
  \<open>formatMultiBulkCommand(commandName, commandArgs)\<close>: the header carries the number
  of arguments plus one and the name with \<open>commandName.length\<close>; the loop appends, for
  each argument, the length of its UTF-8 bytes and the argument itself.
  Arguments are strings (a number is passed as its text).
\<close>

definition formatMultiBulkCommand :: "jsstring \<Rightarrow> jsstring list \<Rightarrow> jsstring" where
  "formatMultiBulkCommand commandName commandArgs =
     foldl (\<lambda>cmd arg. (cmd @ (js ''$'' @ decimal (length (utf8_encode arg)) @ CRLF))
                        @ (arg @ CRLF))
       ((js ''*'' @ decimal (length commandArgs + 1) @ CRLF)
         @ (js ''$'' @ decimal (js_length commandName) @ CRLF)
         @ (commandName @ CRLF))
       commandArgs"

section \<open>Exceptions and streams\<close>

text \<open>
  Every failure of the source is a thrown exception: \<open>throw new Error(msg)\<close>, a
  \<open>TypeError\<close> of the interpreter (a method called on \<open>undefined\<close> or on a value that
  has no such method), or an exception of the Java platform (its text is indicative).
  A computation returns its outcome together with the state it leaves behind.
\<close>

datatype exn = Error jsstring | TypeError | JavaException jsstring

definition andThen ::
  "(exn + 'a) \<times> 's \<Rightarrow> ('a \<Rightarrow> 's \<Rightarrow> (exn + 'b) \<times> 's) \<Rightarrow> (exn + 'b) \<times> 's" where
  "andThen m f = (case m of (Inl e, s) \<Rightarrow> (Inl e, s) | (Inr x, s) \<Rightarrow> f x s)"

definition tryCatch ::
  "(exn + 'a) \<times> 's \<Rightarrow> (exn \<Rightarrow> 's \<Rightarrow> (exn + 'a) \<times> 's) \<Rightarrow> (exn + 'a) \<times> 's" where
  "tryCatch m h = (case m of (Inl e, s) \<Rightarrow> h e s | (Inr x, s) \<Rightarrow> (Inr x, s))"

text \<open>
  An input stream: the bytes the peer will still deliver, and what a read does once
  they are used up: it reports the end of the stream (\<open>None\<close>), or it raises an I/O
  exception with the given text. \<open>chunks\<close> says how \<open>read(buf)\<close> is served: for its
  successive calls, the largest number of bytes that the call delivers (a call delivers
  at least one byte while bytes remain); once the list is used up, a call delivers all
  the bytes it asks for. \<open>read()\<close> waits for its single byte, and \<open>skip(n)\<close> reads on until
  \<open>n\<close> bytes are passed or the stream ends.
\<close>

record istream =
  pending :: "byte list"
  eof_exn :: "jsstring option"
  chunks :: "nat list"

definition stream_read :: "istream \<Rightarrow> (exn + int) \<times> istream" where
  "stream_read stream =
     (case pending stream of
        b # bs \<Rightarrow> (Inr (int b), stream\<lparr>pending := bs\<rparr>)
      | [] \<Rightarrow> (case eof_exn stream of
                 None \<Rightarrow> (Inr (- 1), stream)
               | Some e \<Rightarrow> (Inl (JavaException e), stream)))"

text \<open>
  \<open>stream.read(buf)\<close> with a zero-filled buffer of \<open>n\<close> bytes. The call may deliver fewer
  bytes than the buffer holds; the number it returns is not looked at by the caller, so
  the model returns the buffer only: the bytes delivered, then the zeros left in place.
\<close>

definition stream_read_buf :: "nat \<Rightarrow> istream \<Rightarrow> (exn + byte list) \<times> istream" where
  "stream_read_buf n stream =
     (let stream1 = stream\<lparr>chunks := tl (chunks stream)\<rparr>
      in if n = 0 then (Inr [], stream1)
         else case pending stream of
           [] \<Rightarrow> (case eof_exn stream of
                    None \<Rightarrow> (Inr (replicate n 0), stream1)
                  | Some e \<Rightarrow> (Inl (JavaException e), stream1))
         | _ \<Rightarrow>
             (let served = (case chunks stream of
                              [] \<Rightarrow> length (pending stream)
                            | k # _ \<Rightarrow> min (max 1 k) (length (pending stream)));
                  got = min n served
              in (Inr (take got (pending stream) @ replicate (n - got) 0),
                  stream1\<lparr>pending := drop got (pending stream)\<rparr>)))"

definition stream_skip :: "nat \<Rightarrow> istream \<Rightarrow> (exn + unit) \<times> istream" where
  "stream_skip n stream =
     (case (pending stream, eof_exn stream) of
        ([], Some e) \<Rightarrow> if n = 0 then (Inr (), stream) else (Inl (JavaException e), stream)
      | _ \<Rightarrow> (Inr (), stream\<lparr>pending := drop n (pending stream)\<rparr>))"

section \<open>Reply reader\<close>

text \<open>
  \<open>readToCRLF\<close>: the loop appends each byte read to \<open>buf\<close> and returns once \<open>buf\<close> has
  more than two characters and ends in CR LF. When the stream ends first, the loop is
  left and the function returns nothing: the result is \<open>undefined\<close>, here \<open>None\<close>.
\<close>

fun readToCRLF_loop :: "jsstring \<Rightarrow> byte list \<Rightarrow> jsstring option \<times> byte list" where
  "readToCRLF_loop buf [] = (None, [])"
| "readToCRLF_loop buf (c # cs) =
     (let buf' = buf @ [c]
      in if length buf' > 2 \<and> drop (length buf' - 2) buf' = CRLF
         then (Some (take (length buf' - 2) buf'), cs)
         else readToCRLF_loop buf' cs)"

definition readToCRLF :: "istream \<Rightarrow> (exn + jsstring option) \<times> istream" where
  "readToCRLF stream =
     (case readToCRLF_loop [] (pending stream) of
        (Some line, rest) \<Rightarrow> (Inr (Some line), stream\<lparr>pending := rest\<rparr>)
      | (None, rest) \<Rightarrow>
          (case eof_exn stream of
             None \<Rightarrow> (Inr None, stream\<lparr>pending := rest\<rparr>)
           | Some e \<Rightarrow> (Inl (JavaException e), stream\<lparr>pending := rest\<rparr>)))"

subsection \<open>\<open>parseInt(s, 10)\<close>\<close>

definition is_space_char :: "nat \<Rightarrow> bool" where
  "is_space_char c \<longleftrightarrow>
     c \<in> {9, 10, 11, 12, 13, 32, 160, 0x1680, 0x2028, 0x2029, 0x202F, 0x205F, 0x3000, 0xFEFF}
     \<or> (0x2000 \<le> c \<and> c \<le> 0x200A)"

definition is_digit :: "nat \<Rightarrow> bool" where
  "is_digit c \<longleftrightarrow> 48 \<le> c \<and> c \<le> 57"

definition digits_value :: "jsstring \<Rightarrow> nat" where
  "digits_value ds = foldl (\<lambda>a d. 10 * a + (d - 48)) 0 ds"

text \<open>
  Leading white space is skipped, a sign is accepted, the longest run of digits is
  read and what follows is ignored; without a digit the result is \<open>NaN\<close>, here \<open>None\<close>.
  The text of \<open>undefined\<close> has no digit.
\<close>

definition parseInt :: "jsstring option \<Rightarrow> int option" where
  "parseInt x =
     (case x of
        None \<Rightarrow> None
      | Some s \<Rightarrow>
          (let t = dropWhile is_space_char s;
               neg = (case t of c # _ \<Rightarrow> c = 45 | [] \<Rightarrow> False);
               u = (case t of c # r \<Rightarrow> if c = 45 \<or> c = 43 then r else t | [] \<Rightarrow> t);
               ds = takeWhile is_digit u
           in if ds = [] then None
              else Some (if neg then - int (digits_value ds) else int (digits_value ds))))"

section \<open>Frame codec: decoding a reply\<close>

text \<open>
  The values a command returns. A number is kept exact (no rounding to a double);
  \<open>NaN\<close> is a value of its own. An array holds strings and nulls, an object is the
  list of its properties.
\<close>

datatype jsval =
    Undefined
  | Null
  | Bool bool
  | Number rat
  | NaN
  | String jsstring
  | Array "jsstring option list"
  | Object "(jsstring \<times> jsval) list"

text \<open>
  \<open>handleBulkReply\<close> returns \<open>null\<close> (\<open>None\<close>) or a string. A length that is not
  a number, or is below \<open>-1\<close>, makes the allocation of the buffer raise.
\<close>

definition handleBulkReply :: "istream \<Rightarrow> (exn + jsstring option) \<times> istream" where
  "handleBulkReply responseStream =
     andThen (readToCRLF responseStream) (\<lambda>line s1.
       case parseInt line of
         None \<Rightarrow> (Inl (JavaException (js ''Cannot convert NaN to int'')), s1)
       | Some valueLength \<Rightarrow>
           if valueLength = - 1 then (Inr None, s1)
           else if valueLength < 0
             then (Inl (JavaException (js ''java.lang.NegativeArraySizeException'')), s1)
           else
             andThen (stream_read_buf (nat valueLength) s1) (\<lambda>buf s2.
               andThen (stream_skip 2 s2) (\<lambda>_ s3.
                 (Inr (Some (utf8_decode buf)), s3))))"

fun handleMultiBulkReply_loop ::
  "nat \<Rightarrow> jsstring option list \<Rightarrow> istream \<Rightarrow> (exn + jsstring option list) \<times> istream" where
  "handleMultiBulkReply_loop 0 entries stream = (Inr entries, stream)"
| "handleMultiBulkReply_loop (Suc k) entries stream =
     andThen (stream_skip 1 stream) (\<lambda>_ s1.
       andThen (handleBulkReply s1) (\<lambda>bulkReply s2.
         handleMultiBulkReply_loop k (entries @ [bulkReply]) s2))"

text \<open>
  A count of \<open>-1\<close> returns the array \<open>[ null ]\<close>. The loop \<open>for (i = 0; i < count; ++i)\<close>
  does not run for a count that is negative or not a number.
\<close>

definition handleMultiBulkReply :: "istream \<Rightarrow> (exn + jsval) \<times> istream" where
  "handleMultiBulkReply responseStream =
     andThen (readToCRLF responseStream) (\<lambda>line s1.
       case parseInt line of
         None \<Rightarrow> (Inr (Array []), s1)
       | Some count \<Rightarrow>
           if count = - 1 then (Inr (Array [None]), s1)
           else andThen (handleMultiBulkReply_loop (nat count) [] s1) (\<lambda>entries s2.
                  (Inr (Array entries), s2)))"

definition handleSingleLineReply :: "istream \<Rightarrow> (exn + jsval) \<times> istream" where
  "handleSingleLineReply responseStream =
     andThen (readToCRLF responseStream) (\<lambda>line s1.
       case line of
         None \<Rightarrow> (Inr Undefined, s1)
       | Some l \<Rightarrow> if l = js ''OK'' then (Inr (Bool True), s1) else (Inr (String l), s1))"

definition handleIntegerReply :: "istream \<Rightarrow> (exn + jsval) \<times> istream" where
  "handleIntegerReply responseStream =
     andThen (readToCRLF responseStream) (\<lambda>line s1.
       case parseInt line of
         None \<Rightarrow> (Inr NaN, s1)
       | Some n \<Rightarrow> (Inr (Number (of_int n)), s1))"

text \<open>
  \<open>handleErrorReply\<close>: \<open>line.indexOf("ERR ") != 0\<close> holds unless the line starts
  with \<open>ERR \<close>; \<open>line.substring(4, line.length)\<close> drops the first four characters.
\<close>

definition errorReplyMessage :: "jsstring \<Rightarrow> jsstring" where
  "errorReplyMessage line =
     (if take 4 line \<noteq> js ''ERR '' then js ''something bad happened: '' @ line
      else drop 4 line)"

definition handleErrorReply :: "istream \<Rightarrow> (exn + jsval) \<times> istream" where
  "handleErrorReply responseStream =
     andThen (readToCRLF responseStream) (\<lambda>line s1.
       case line of
         None \<Rightarrow> (Inl TypeError, s1)
       | Some l \<Rightarrow> (Inl (Error (errorReplyMessage l)), s1))"

definition bulk_value :: "jsstring option \<Rightarrow> jsval" where
  "bulk_value b = (case b of None \<Rightarrow> Null | Some s \<Rightarrow> String s)"

definition replyPrefixToHandler ::
  "nat \<Rightarrow> (istream \<Rightarrow> (exn + jsval) \<times> istream) option" where
  "replyPrefixToHandler typePrefix =
     (if typePrefix = 36 then Some (\<lambda>stream. andThen (handleBulkReply stream)
                                                  (\<lambda>b s. (Inr (bulk_value b), s)))
      else if typePrefix = 42 then Some handleMultiBulkReply
      else if typePrefix = 43 then Some handleSingleLineReply
      else if typePrefix = 58 then Some handleIntegerReply
      else if typePrefix = 45 then Some handleErrorReply
      else None)"

section \<open>Result post-processor\<close>

text \<open>
  \<open>maybeConvertToNumber\<close> tests the text of its argument against
  \<open>/^\s*\d+\s*$/\<close> and \<open>/^\s*\d+\.(\d+)?\s*$/\<close>. The text of a string is the string, the
  text of an array joins its elements with commas (\<open>null\<close> as the empty text). The
  texts of \<open>undefined\<close>, \<open>null\<close>, a boolean, \<open>NaN\<close> and an object match neither, and a
  number whose text matches is converted to itself.
\<close>

definition looks_integer :: "jsstring \<Rightarrow> bool" where
  "looks_integer str =
     (let t = dropWhile is_space_char str
      in takeWhile is_digit t \<noteq> [] \<and> list_all is_space_char (dropWhile is_digit t))"

definition looks_decimal :: "jsstring \<Rightarrow> bool" where
  "looks_decimal str =
     (let t = dropWhile is_space_char str
      in takeWhile is_digit t \<noteq> [] \<and>
         (case dropWhile is_digit t of
            [] \<Rightarrow> False
          | c # r \<Rightarrow> c = 46 \<and> list_all is_space_char (dropWhile is_digit r)))"

definition parseFloat :: "jsstring \<Rightarrow> rat" where
  "parseFloat str =
     (let t = dropWhile is_space_char str;
          frac = takeWhile is_digit (drop 1 (dropWhile is_digit t))
      in of_nat (digits_value (takeWhile is_digit t))
         + of_nat (digits_value frac) / 10 ^ length frac)"

definition join_comma :: "jsstring option list \<Rightarrow> jsstring" where
  "join_comma xs =
     concat (map (\<lambda>(i, x). (if i = 0 then [] else js '','') @ (case x of None \<Rightarrow> [] | Some s \<Rightarrow> s))
                 (zip [0 ..< length xs] xs))"

definition text_of :: "jsval \<Rightarrow> jsstring option" where
  "text_of v = (case v of String s \<Rightarrow> Some s | Array xs \<Rightarrow> Some (join_comma xs) | _ \<Rightarrow> None)"

definition maybeConvertToNumber :: "jsval \<Rightarrow> jsval" where
  "maybeConvertToNumber v =
     (case text_of v of
        None \<Rightarrow> v
      | Some str \<Rightarrow>
          if looks_integer str
            then Number (of_nat (digits_value (takeWhile is_digit (dropWhile is_space_char str))))
          else if looks_decimal str then Number (parseFloat str)
          else v)"

text \<open>\<open>s.split(sep)\<close> for a non-empty separator.\<close>

function split_loop :: "jsstring \<Rightarrow> jsstring \<Rightarrow> jsstring \<Rightarrow> jsstring list" where
  "split_loop sep cur [] = [cur]"
| "split_loop sep cur (c # cs) =
     (if sep \<noteq> [] \<and> take (length sep) (c # cs) = sep
      then cur # split_loop sep [] (drop (length sep) (c # cs))
      else split_loop sep (cur @ [c]) cs)"
  by pat_completeness auto
termination
  by (relation "measure (\<lambda>(sep, cur, s). length s)") auto

definition split :: "jsstring \<Rightarrow> jsstring \<Rightarrow> jsstring list" where
  "split sep s = split_loop sep [] s"

definition info_line :: "(jsstring \<times> jsval) list \<Rightarrow> jsstring \<Rightarrow> (jsstring \<times> jsval) list" where
  "info_line infoObject line =
     (let parts = split (js '':'') line
      in if length parts = 2
         then AList.update (parts ! 0) (maybeConvertToNumber (String (parts ! 1))) infoObject
         else infoObject)"

text \<open>
  \<open>postProcessResults(result, cmd)\<close>. For \<open>info\<close>, \<open>result.split\<close> exists on a string
  only: any other reply raises a \<open>TypeError\<close>. The comparison \<open>result === 0\<close> holds for
  the number zero and for nothing else.
\<close>

definition postProcessResults :: "jsval \<Rightarrow> jsstring \<Rightarrow> exn + jsval" where
  "postProcessResults result cmd =
     (if cmd = js ''info'' then
        (case result of
           String s \<Rightarrow> Inr (Object (foldl info_line [] (split CRLF s)))
         | _ \<Rightarrow> Inl TypeError)
      else if cmd = js ''lastsave'' then Inr (maybeConvertToNumber result)
      else if cmd \<in> {js ''setnx'', js ''sadd'', js ''sismember'', js ''zadd'', js ''zrem''}
        then Inr (if result = Number 0 then Bool False else Bool True)
      else Inr result)"

section \<open>Connection manager\<close>

text \<open>
  A socket: its input stream, what a write on its output stream does (\<open>None\<close>: the
  text is sent; otherwise the write raises an I/O exception with the given text), and
  the texts written so far.
\<close>

record socket =
  ins :: istream
  out_exn :: "jsstring option"
  written :: "jsstring list"

text \<open>
  The client and its surroundings. \<open>conn\<close> is \<open>this._conn\<close> together with the streams
  \<open>this._out\<close> and \<open>this._inp\<close> bound to it; \<open>currentCmd\<close> is \<open>this.currentCmd\<close>.
  \<open>network\<close> lists the sockets that the next calls of \<open>new Socket(host, port)\<close> obtain
  (none left: the constructor raises), \<open>dropped\<close> the sockets closed so far, the latest
  first.
\<close>

record state =
  currentCmd :: jsstring
  conn :: "socket option"
  network :: "socket list"
  dropped :: "socket list"

text \<open>The text of the exception raised by the use of a stream that has no open socket.\<close>

definition no_stream_text :: jsstring where
  "no_stream_text = js ''java.net.SocketException: Socket closed''"

text \<open>\<open>Redis.prototype.fatal\<close>: closes the connection, forgets it and throws.\<close>

definition fatal :: "jsstring \<Rightarrow> state \<Rightarrow> (exn + 'a) \<times> state" where
  "fatal errorMessage st =
     (Inl (Error errorMessage),
      st\<lparr>conn := None,
         dropped := (case conn st of None \<Rightarrow> dropped st | Some c \<Rightarrow> c # dropped st)\<rparr>)"

definition writeCmd :: "jsstring \<Rightarrow> state \<Rightarrow> (exn + unit) \<times> state" where
  "writeCmd cmd st =
     (case conn st of
        None \<Rightarrow> fatal (js ''Error occured processing CMD:'' @ cmd @ js '': '' @ no_stream_text) st
      | Some c \<Rightarrow>
          (case out_exn c of
             Some e \<Rightarrow> fatal (js ''Error occured processing CMD:'' @ cmd @ js '': '' @ e) st
           | None \<Rightarrow> (Inr (), st\<lparr>conn := Some (c\<lparr>written := written c @ [cmd]\<rparr>)\<rparr>)))"

text \<open>
  \<open>Redis.prototype.quit\<close>. A socket that was connected once answers \<open>isConnected()\<close>
  with true, so the guard is \<open>!this._conn\<close>.
\<close>

definition quit :: "state \<Rightarrow> (exn + unit) \<times> state" where
  "quit st =
     andThen (if conn st = None then fatal (js ''connection is not open'') st else (Inr (), st))
       (\<lambda>_ st1. andThen (writeCmd (js ''quit'') st1)
         (\<lambda>_ st2. (Inr (),
            st2\<lparr>conn := None,
                dropped := (case conn st2 of None \<Rightarrow> dropped st2 | Some c \<Rightarrow> c # dropped st2)\<rparr>)))"

definition reconnect :: "state \<Rightarrow> (exn + unit) \<times> state" where
  "reconnect st =
     andThen (if conn st \<noteq> None then quit st else (Inr (), st))
       (\<lambda>_ st1. case network st1 of
           [] \<Rightarrow> (Inl (JavaException (js ''java.net.ConnectException'')), st1)
         | c # cs \<Rightarrow> (Inr (), st1\<lparr>conn := Some c, network := cs\<rparr>))"

definition connect :: "state \<Rightarrow> (exn + unit) \<times> state" where
  "connect st = reconnect st"

section \<open>Command dispatcher\<close>

definition commands :: "jsstring list" where
  "commands = map js
     [''auth'', ''get'', ''mget'', ''incr'', ''incrby'',
      ''decr'', ''decrby'', ''exists'', ''del'', ''type'',
      ''keys'', ''randomkey'', ''rename'', ''renamenx'', ''dbsize'',
      ''expire'', ''ttl'', ''llen'', ''lrange'', ''ltrim'',
      ''lindex'', ''lpop'', ''rpop'', ''scard'', ''sinter'',
      ''sinterstore'', ''sunion'', ''sunionstore'', ''smembers'',
      ''move'', ''flushdb'', ''flushall'', ''save'', ''bgsave'',
      ''lastsave'', ''shutdown'', ''info'', ''ping'',
      ''set'', ''getset'', ''setnx'', ''rpush'', ''lpush'',
      ''lset'', ''lrem'', ''sadd'', ''srem'', ''smove'',
      ''sismember'',
      ''zadd'', ''zrem'', ''zscore'', ''zcard'', ''zincrby'']"

text \<open>
  The members that every object inherits from \<open>Object.prototype\<close> on this platform: those
  of the language and the additions of the engine.
\<close>

definition object_prototype_names :: "jsstring list" where
  "object_prototype_names = map js
     [''constructor'', ''toString'', ''toLocaleString'', ''valueOf'', ''hasOwnProperty'',
      ''propertyIsEnumerable'', ''isPrototypeOf'', ''toSource'',
      ''__defineGetter__'', ''__defineSetter__'', ''__lookupGetter__'', ''__lookupSetter__'']"

text \<open>
  \<open>processResponse\<close>: the first byte is read under a \<open>try\<close> whose handler calls
  \<open>fatal\<close>; the end of the stream throws without closing; a byte outside \<open>-+$*:\<close> is
  fatal; otherwise the handler of the prefix runs on the stream and its result is
  post-processed for \<open>this.currentCmd\<close>.
\<close>

definition on_stream ::
  "(istream \<Rightarrow> (exn + 'a) \<times> istream) \<Rightarrow> socket \<Rightarrow> state \<Rightarrow> (exn + 'a) \<times> state" where
  "on_stream f c st =
     (case f (ins c) of (r, stream') \<Rightarrow> (r, st\<lparr>conn := Some (c\<lparr>ins := stream'\<rparr>)\<rparr>))"

definition processResponse :: "state \<Rightarrow> (exn + jsval) \<times> state" where
  "processResponse st =
     (case conn st of
        None \<Rightarrow> fatal (js ''Error during responseStream.read: '' @ no_stream_text) st
      | Some c \<Rightarrow>
          (case stream_read (ins c) of
             (Inl e, stream1) \<Rightarrow>
               fatal (js ''Error during responseStream.read: ''
                        @ (case e of JavaException t \<Rightarrow> t | _ \<Rightarrow> []))
                 (st\<lparr>conn := Some (c\<lparr>ins := stream1\<rparr>)\<rparr>)
           | (Inr firstByte, stream1) \<Rightarrow>
               (let c1 = c\<lparr>ins := stream1\<rparr>; st1 = st\<lparr>conn := Some c1\<rparr>
                in if firstByte = - 1 then (Inl (Error (js ''Redis connection timeout'')), st1)
                   else if nat firstByte \<notin> set (js ''-+$*:'')
                     then fatal (js ''invalid Redis type Prefix:'' @ [nat firstByte]
                                   @ js '' byte:'' @ decimal (nat firstByte)) st1
                   else
                     (case replyPrefixToHandler (nat firstByte) of
                        None \<Rightarrow> (Inl TypeError, st1)
                      | Some handler \<Rightarrow>
                          andThen (on_stream handler c1 st1)
                            (\<lambda>result st2.
                               (case postProcessResults result (currentCmd st2) of
                                  Inl e \<Rightarrow> (Inl e, st2)
                                | Inr v \<Rightarrow> (Inr v, st2)))))))"

text \<open>
  The function that \<open>createCommandSender(commandName)\<close> returns, applied to its
  arguments. The first write stands before the \<open>try\<close>; the handler of the \<open>try\<close> catches
  whatever \<open>processResponse\<close> throws. The test \<open>if (commands[commandName])\<close> passes for a
  name of the table (each is bound to \<open>1\<close>) and for a name that the object literal
  inherits from \<open>Object.prototype\<close> (each is bound to a function).
\<close>

definition createCommandSender ::
  "jsstring \<Rightarrow> jsstring list \<Rightarrow> state \<Rightarrow> (exn + jsval) \<times> state" where
  "createCommandSender commandName commandArgs st =
     andThen (let st0 = st\<lparr>currentCmd := commandName\<rparr>
              in if conn st0 = None then connect st0 else (Inr (), st0))
       (\<lambda>_ st1.
          andThen (if commandName \<in> set commands \<or> commandName \<in> set object_prototype_names
                   then (Inr (formatMultiBulkCommand commandName commandArgs), st1)
                   else fatal (js ''unknown command '' @ commandName) st1)
            (\<lambda>cmd st2.
               andThen (writeCmd cmd st2)
                 (\<lambda>_ st3.
                    tryCatch (processResponse st3)
                      (\<lambda>e st4.
                         andThen (reconnect st4)
                           (\<lambda>_ st5. andThen (writeCmd cmd st5)
                              (\<lambda>_ st6. processResponse st6))))))"

text \<open>
  The loop \<open>for (var commandName in commands)\<close> installs one sender per name of the
  table; a name outside the table gets none.
\<close>

definition registered_sender ::
  "jsstring \<Rightarrow> (jsstring list \<Rightarrow> state \<Rightarrow> (exn + jsval) \<times> state) option" where
  "registered_sender commandName =
     map_of (map (\<lambda>n. (n, createCommandSender n)) commands) commandName"

text \<open>
  \<open>Redis.prototype.select\<close>, for a database number: both the write and the decode
  stand inside the \<open>try\<close>.
\<close>

definition select :: "int \<Rightarrow> state \<Rightarrow> (exn + jsval) \<times> state" where
  "select dbId st =
     (let cmd = js ''select '' @ int_to_string dbId;
          st0 = st\<lparr>currentCmd := cmd\<rparr>
      in tryCatch (andThen (writeCmd cmd st0) (\<lambda>_ st1. processResponse st1))
           (\<lambda>e st2.
              andThen (reconnect st2)
                (\<lambda>_ st3. andThen (writeCmd cmd st3)
                   (\<lambda>_ st4. processResponse st4))))"

text \<open>
  \<open>Redis.prototype.sort(key, options)\<close>; \<open>options\<close> is \<open>None\<close> when it is not an
  object. An absent or empty \<open>byPattern\<close> is falsy, as is an absent \<open>limit\<close> or
  \<open>getPatterns\<close>. \<open>cmd.replace(/\s+$/, '')\<close> removes the white space at the end.
\<close>

record sort_options =
  byPattern :: "jsstring option"
  limit :: "(int \<times> int) option"
  getPatterns :: "jsstring list option"
  ascending :: bool
  lexicographically :: bool

definition strip_trailing_space :: "jsstring \<Rightarrow> jsstring" where
  "strip_trailing_space s = rev (dropWhile is_space_char (rev s))"

definition sort_command :: "jsstring \<Rightarrow> sort_options option \<Rightarrow> jsstring" where
  "sort_command key options =
     (let cmd = js ''sort '' @ key
      in case options of
           None \<Rightarrow> cmd
         | Some opts \<Rightarrow>
             (let optBy = (case byPattern opts of
                             None \<Rightarrow> []
                           | Some pat \<Rightarrow> if pat = [] then [] else js ''by '' @ pat);
                  optGet = (case getPatterns opts of
                              None \<Rightarrow> []
                            | Some pats \<Rightarrow>
                                foldl (\<lambda>acc pat. acc @ js ''get '' @ pat @ js '' '') [] pats);
                  optAsc = (if ascending opts then [] else js ''desc'');
                  optAlpha = (if lexicographically opts then js ''alpha'' else []);
                  optLimit = (case limit opts of
                                None \<Rightarrow> []
                              | Some (start, count) \<Rightarrow>
                                  js ''limit '' @ int_to_string start @ js '' ''
                                    @ int_to_string count);
                  cmd1 = cmd @ js '' '' @ optBy @ js '' '' @ optLimit @ js '' '' @ optGet
                           @ js '' '' @ optAsc @ js '' '' @ optAlpha @ js '' '' @ CRLF
              in strip_trailing_space cmd1 @ CRLF))"

definition sort :: "jsstring \<Rightarrow> sort_options option \<Rightarrow> state \<Rightarrow> (exn + jsval) \<times> state" where
  "sort key options st =
     andThen (if conn st = None then reconnect st else (Inr (), st))
       (\<lambda>_ st1.
          (let cmd = sort_command key options
           in andThen (writeCmd cmd (st1\<lparr>currentCmd := cmd\<rparr>))
                (\<lambda>_ st3.
                   tryCatch (processResponse st3)
                     (\<lambda>e st4.
                        andThen (reconnect st4)
                          (\<lambda>_ st5. andThen (writeCmd cmd st5)
                             (\<lambda>_ st6. processResponse st6))))))"

section \<open>Calling a method of the client\<close>




section \<open>Reply shapes used in the statements\<close>

text \<open>Whether a byte sequence holds a CR immediately followed by a LF.\<close>

fun has_crlf :: "byte list \<Rightarrow> bool" where
  "has_crlf (x # y # r) = ((x = 13 \<and> y = 10) \<or> has_crlf (y # r))"
| "has_crlf _ = False"


text \<open>
  The protocol's framing of a bulk string on the wire: \<open>$\<close>, the number of payload
  bytes, CR LF, the payload, CR LF. A server sends it as a bulk reply.
\<close>

definition bulk_frame :: "byte list \<Rightarrow> byte list" where
  "bulk_frame payload = js ''$'' @ decimal (length payload) @ CRLF @ payload @ CRLF"

text \<open>
  Sample surroundings: a socket whose peer sends the given bytes and then closes, with
  working writes and nothing written yet; a client that has issued no command.
\<close>

definition fresh_socket :: "byte list \<Rightarrow> socket" where
  "fresh_socket reply =
     \<lparr>ins = \<lparr>pending = reply, eof_exn = None, chunks = []\<rparr>, out_exn = None, written = []\<rparr>"

definition idle_client :: "socket option \<Rightarrow> socket list \<Rightarrow> state" where
  "idle_client c sockets = \<lparr>currentCmd = [], conn = c, network = sockets, dropped = []\<rparr>"

section \<open>Auxiliary facts\<close>

lemma js_Nil [simp]: "js [] = []"
  by (simp add: js_def)

lemma js_Cons [simp]: "js (c # cs) = of_char c # js cs"
  by (simp add: js_def)

lemma andThen_Inr [simp]: "andThen (Inr x, s) f = f x s"
  by (simp add: andThen_def)

lemma andThen_Inl [simp]: "andThen (Inl e, s) f = (Inl e, s)"
  by (simp add: andThen_def)

lemma tryCatch_Inr [simp]: "tryCatch (Inr x, s) h = (Inr x, s)"
  by (simp add: tryCatch_def)

lemma tryCatch_Inl [simp]: "tryCatch (Inl e, s) h = h e s"
  by (simp add: tryCatch_def)

lemma has_crlf_Cons:
  "has_crlf (x # xs) = ((case xs of y # _ \<Rightarrow> x = 13 \<and> y = 10 | [] \<Rightarrow> False) \<or> has_crlf xs)"
  by (cases xs) auto

lemma has_crlf_mid: "has_crlf (pre @ 13 # 10 # ys)"
  by (induction pre) (auto simp: has_crlf_Cons split: list.splits)

lemma has_crlf_appendI: "has_crlf xs \<Longrightarrow> has_crlf (xs @ ys)"
proof (induction xs)
  case Nil
  then show ?case by simp
next
  case (Cons x xs)
  show ?case
  proof (cases xs)
    case Nil
    with Cons.prems show ?thesis by simp
  next
    case (Cons y r)
    with Cons.prems Cons.IH show ?thesis by auto
  qed
qed

lemma ends_crlf_has_crlf:
  assumes "drop (length xs - 2) xs = CRLF"
  shows "has_crlf (xs @ ys)"
proof -
  have "take (length xs - 2) xs @ drop (length xs - 2) xs = xs"
    by (rule append_take_drop_id)
  then have "take (length xs - 2) xs @ [13, 10] = xs"
    by (simp only: assms CRLF_def)
  from this [symmetric] obtain pre where pre: "xs = pre @ [13, 10]" ..
  have "has_crlf (pre @ 13 # 10 # ys)" by (rule has_crlf_mid)
  then show ?thesis by (simp add: pre)
qed

lemma readToCRLF_loop_line:
  "\<not> has_crlf (buf @ line) \<Longrightarrow> buf @ line \<noteq> [] \<Longrightarrow>
   readToCRLF_loop buf (line @ CRLF @ rest) = (Some (buf @ line), rest)"
proof (induction line arbitrary: buf)
  case Nil
  then have ne: "buf \<noteq> []" by simp
  have "drop (length buf - Suc 0) (buf @ [13]) \<noteq> CRLF"
  proof
    assume "drop (length buf - Suc 0) (buf @ [13]) = CRLF"
    then have "last (drop (length buf - Suc 0) (buf @ [13])) = last CRLF" by simp
    then show False using ne by (simp add: CRLF_def)
  qed
  moreover have "drop (length buf) (buf @ [13, 10]) = CRLF"
    by (simp add: CRLF_def)
  ultimately show ?case using ne
    by (simp add: CRLF_def Let_def)
next
  case (Cons c line)
  have nc: "\<not> has_crlf ((buf @ [c]) @ line)" using Cons.prems(1) by simp
  have "\<not> (drop (length (buf @ [c]) - 2) (buf @ [c]) = CRLF)"
    using ends_crlf_has_crlf [of "buf @ [c]" line] nc by blast
  then show ?case using Cons.IH [of "buf @ [c]"] nc
    by (simp add: Let_def)
qed

lemma readToCRLF_loop_none:
  "\<not> has_crlf (buf @ bs) \<Longrightarrow> readToCRLF_loop buf bs = (None, [])"
proof (induction bs arbitrary: buf)
  case Nil
  then show ?case by simp
next
  case (Cons c bs)
  have nc: "\<not> has_crlf ((buf @ [c]) @ bs)" using Cons.prems by simp
  have "\<not> (drop (length (buf @ [c]) - 2) (buf @ [c]) = CRLF)"
    using ends_crlf_has_crlf [of "buf @ [c]" bs] nc by blast
  then show ?case using Cons.IH [of "buf @ [c]"] nc
    by (simp add: Let_def)
qed

lemma decimal_digits: "list_all is_digit (decimal n)"
proof (induction n rule: decimal.induct)
  case (1 n)
  show ?case
  proof (cases "n < 10")
    case True
    then show ?thesis by (simp add: decimal.simps [of n] is_digit_def)
  next
    case False
    have "n mod 10 < 10" by simp
    then have "is_digit (48 + n mod 10)" unfolding is_digit_def by linarith
    with 1 False show ?thesis by (simp add: decimal.simps [of n])
  qed
qed

lemma decimal_nonempty: "decimal n \<noteq> []"
  by (subst decimal.simps) simp

lemma digits_value_snoc: "digits_value (ds @ [d]) = 10 * digits_value ds + (d - 48)"
  by (simp add: digits_value_def)

lemma digits_value_decimal: "digits_value (decimal n) = n"
proof (induction n rule: decimal.induct)
  case (1 n)
  show ?case
  proof (cases "n < 10")
    case True
    then show ?thesis by (simp add: decimal.simps [of n] digits_value_def)
  next
    case False
    with 1 show ?thesis by (simp add: decimal.simps [of n] digits_value_snoc)
  qed
qed

lemma digit_not_space: "is_digit c \<Longrightarrow> \<not> is_space_char c"
  by (auto simp: is_digit_def is_space_char_def)

lemma takeWhile_all: "list_all P xs \<Longrightarrow> takeWhile P xs = xs"
  by (induction xs) auto

lemma parseInt_decimal: "parseInt (Some (decimal n)) = Some (int n)"
proof -
  obtain d ds where eq: "decimal n = d # ds"
    using decimal_nonempty [of n] by (cases "decimal n") auto
  have all: "list_all is_digit (d # ds)" using decimal_digits [of n] eq by simp
  then have d: "is_digit d" by simp
  then have "\<not> is_space_char d" "d \<noteq> 45" "d \<noteq> 43"
    by (auto simp: digit_not_space is_digit_def)
  moreover have "takeWhile is_digit (d # ds) = d # ds" using all by (rule takeWhile_all)
  moreover have "digits_value (d # ds) = n" using digits_value_decimal [of n] eq by simp
  ultimately show ?thesis
    by (simp add: parseInt_def eq Let_def)
qed











lemma readToCRLF_line:
  assumes "line \<noteq> []" "\<not> has_crlf line"
  shows "readToCRLF \<lparr>pending = line @ CRLF @ rest, eof_exn = e, chunks = ks\<rparr>
           = (Inr (Some line), \<lparr>pending = rest, eof_exn = e, chunks = ks\<rparr>)"
  using readToCRLF_loop_line [of "[]" line rest] assms
  by (simp add: readToCRLF_def)


text \<open>
  A read that is cut short: of the five bytes of the payload three arrive, the buffer
  keeps two zeros, and the two bytes skipped are the rest of the payload.
\<close>

lemma handleBulkReply_short_read:
  "handleBulkReply \<lparr>pending = js ''5'' @ CRLF @ js ''hello'' @ CRLF, eof_exn = None, chunks = [3]\<rparr>
     = (Inr (Some (js ''hel'' @ [0, 0])), \<lparr>pending = CRLF, eof_exn = None, chunks = []\<rparr>)"
  by (simp add: handleBulkReply_def readToCRLF_def CRLF_def parseInt_def is_space_char_def
      is_digit_def digits_value_def stream_read_buf_def stream_skip_def Let_def
      numeral_2_eq_2)

lemma foldl_append_concat:
  "foldl (\<lambda>cmd arg. (cmd @ f arg) @ g arg) init args = init @ concat (map (\<lambda>arg. f arg @ g arg) args)"
  by (induction args arbitrary: init) simp_all

lemma formatMultiBulkCommand_eq:
  "formatMultiBulkCommand commandName commandArgs =
     js ''*'' @ decimal (length commandArgs + 1) @ CRLF
     @ js ''$'' @ decimal (js_length commandName) @ CRLF @ commandName @ CRLF
     @ concat (map (\<lambda>arg. js ''$'' @ decimal (length (utf8_encode arg)) @ CRLF @ arg @ CRLF)
                   commandArgs)"
  unfolding formatMultiBulkCommand_def foldl_append_concat by simp

lemma utf8_encode_append: "utf8_encode (a @ b) = utf8_encode a @ utf8_encode b"
  by (simp add: utf8_encode_def)

lemma utf8_encode_Cons: "utf8_encode (c # s) = utf8_char c @ utf8_encode s"
  by (simp add: utf8_encode_def)

lemma utf8_encode_concat: "utf8_encode (concat xs) = concat (map utf8_encode xs)"
  by (induction xs) (simp_all add: utf8_encode_append utf8_encode_def)

lemma utf8_encode_ascii: "list_all (\<lambda>c. c < 128) s \<Longrightarrow> utf8_encode s = s"
  by (induction s) (simp_all add: utf8_encode_Cons utf8_char_def, simp add: utf8_encode_def)

lemma js_length_ascii: "list_all (\<lambda>c. c < 128) s \<Longrightarrow> js_length s = length s"
  by (induction s) (simp_all add: js_length_def)

lemma decimal_ascii: "list_all (\<lambda>c. c < 128) (decimal n)"
  using decimal_digits [of n] by (induction "decimal n") (auto simp: is_digit_def list_all_iff)

lemma utf8_encode_decimal [simp]: "utf8_encode (decimal n) = decimal n"
  by (simp add: utf8_encode_ascii decimal_ascii)

lemma utf8_encode_CRLF [simp]: "utf8_encode CRLF = CRLF"
  by (simp add: utf8_encode_ascii CRLF_def)

lemma commands_ascii: "commandName \<in> set commands \<Longrightarrow> list_all (\<lambda>c. c < 128) commandName"
  by (auto simp: commands_def)

lemma wire_format:
  assumes "list_all (\<lambda>c. c < 128) commandName"
  shows "utf8_encode (formatMultiBulkCommand commandName commandArgs) =
     js ''*'' @ decimal (length commandArgs + 1) @ CRLF
     @ bulk_frame (utf8_encode commandName)
     @ concat (map (\<lambda>arg. bulk_frame (utf8_encode arg)) commandArgs)"
proof -
  have name: "utf8_encode commandName = commandName" "js_length commandName = length commandName"
    using assms by (simp_all add: utf8_encode_ascii js_length_ascii)
  have star: "utf8_encode (js ''*'') = js ''*''" and dollar: "utf8_encode (js ''$'') = js ''$''"
    by (simp_all add: utf8_encode_ascii)
  have args: "utf8_encode (concat (map (\<lambda>arg. js ''$'' @ decimal (length (utf8_encode arg)) @ CRLF @ arg @ CRLF) commandArgs))
      = concat (map (\<lambda>arg. bulk_frame (utf8_encode arg)) commandArgs)"
    by (induction commandArgs)
      (simp_all add: utf8_encode_append utf8_encode_Cons utf8_char_def bulk_frame_def
        utf8_encode_def [of "[]"])
  show ?thesis
    unfolding formatMultiBulkCommand_eq
    by (simp only: utf8_encode_append args star dollar name utf8_encode_decimal utf8_encode_CRLF
        bulk_frame_def append_assoc)
qed


lemma decimal_small: "n < 10 \<Longrightarrow> decimal n = [48 + n]"
  by (simp add: decimal.simps)


lemma readToCRLF_exhausted:
  assumes "\<not> has_crlf bs"
  shows "readToCRLF \<lparr>pending = bs, eof_exn = None, chunks = ks\<rparr>
           = (Inr None, \<lparr>pending = [], eof_exn = None, chunks = ks\<rparr>)"
  using readToCRLF_loop_none [of "[]" bs] assms
  by (simp add: readToCRLF_def)

lemma select_retries_after_write_failure:
  assumes "conn st = Some c" "out_exn c = Some e" "network st = c2 # cs" "out_exn c2 = None"
  shows "select dbId st
           = processResponse
               (st\<lparr>currentCmd := js ''select '' @ int_to_string dbId,
                   conn := Some (c2\<lparr>written := written c2 @ [js ''select '' @ int_to_string dbId]\<rparr>),
                   network := cs, dropped := c # dropped st\<rparr>)"
  using assms by (cases st) (simp add: select_def Let_def writeCmd_def fatal_def reconnect_def)

lemma processResponse_invalid_prefix:
  assumes "conn st = Some c" "pending (ins c) = b # bs" "b \<notin> set (js ''-+$*:'')"
  shows "processResponse st
           = (Inl (Error (js ''invalid Redis type Prefix:'' @ [b] @ js '' byte:'' @ decimal b)),
              st\<lparr>conn := None, dropped := c\<lparr>ins := (ins c)\<lparr>pending := bs\<rparr>\<rparr> # dropped st\<rparr>)"
  using assms by (simp add: processResponse_def stream_read_def fatal_def Let_def)

lemma processResponse_error_reply:
  assumes "conn st = Some c" "pending (ins c) = js ''-'' @ line @ CRLF @ rest"
    "line \<noteq> []" "\<not> has_crlf line"
  shows "processResponse st
           = (Inl (Error (errorReplyMessage line)),
              st\<lparr>conn := Some (c\<lparr>ins := (ins c)\<lparr>pending := rest\<rparr>\<rparr>)\<rparr>)"
proof -
  obtain p e ks where ic: "ins c = \<lparr>pending = p, eof_exn = e, chunks = ks\<rparr>"
    by (cases "ins c") auto
  have p: "p = 45 # line @ CRLF @ rest" using assms(2) ic by simp
  have rd: "stream_read \<lparr>pending = p, eof_exn = e, chunks = ks\<rparr>
      = (Inr 45, \<lparr>pending = line @ CRLF @ rest, eof_exn = e, chunks = ks\<rparr>)"
    by (simp add: stream_read_def p)
  show ?thesis
    by (simp add: processResponse_def assms(1) rd replyPrefixToHandler_def on_stream_def
        handleErrorReply_def readToCRLF_line [OF assms(3,4)] ic)
qed

lemma quit_open:
  assumes "conn st = Some c" "out_exn c = None"
  shows "quit st = (Inr (), st\<lparr>conn := None,
                        dropped := c\<lparr>written := written c @ [js ''quit'']\<rparr> # dropped st\<rparr>)"
  using assms by (simp add: quit_def writeCmd_def)

lemma reconnect_closed:
  assumes "conn st = None" "network st = c2 # cs"
  shows "reconnect st = (Inr (), st\<lparr>conn := Some c2, network := cs\<rparr>)"
  using assms by (simp add: reconnect_def)

lemma writeCmd_open:
  assumes "conn st = Some c" "out_exn c = None"
  shows "writeCmd cmd st = (Inr (), st\<lparr>conn := Some (c\<lparr>written := written c @ [cmd]\<rparr>)\<rparr>)"
  using assms by (simp add: writeCmd_def)


text \<open>
  Every sender that the loop installs was built for a name of the table, so no installed
  sender reaches the branch \<open>unknown command\<close> of \<open>createCommandSender\<close> by way of a name
  that the test rejects.
\<close>

lemma registered_sender_Some:
  assumes "registered_sender commandName = Some sender"
  shows "commandName \<in> set commands \<and> sender = createCommandSender commandName"
  using assms by (auto simp: registered_sender_def dest!: map_of_SomeD)

lemma strip_trailing_space_append:
  assumes "a \<noteq> []" "\<not> is_space_char (last a)"
  shows "strip_trailing_space (a @ b) = a @ strip_trailing_space b"
proof -
  have "dropWhile is_space_char (rev a) = rev a"
    using assms by (cases "rev a") (auto simp: last_rev [symmetric] hd_rev)
  then show ?thesis
    by (simp add: strip_trailing_space_def dropWhile_append dropWhile_eq_Nil_conv)
qed

lemma strip_trailing_space_sort:
  "strip_trailing_space (115 # 111 # 114 # 116 # x) = 115 # 111 # 114 # 116 # strip_trailing_space x"
  using strip_trailing_space_append [of "[115, 111, 114, 116]" x]
  by (simp add: is_space_char_def)

lemma sort_command_prefix: "\<exists>r. sort_command key options = js ''sort'' @ r"
  by (cases options) (simp_all add: sort_command_def Let_def strip_trailing_space_sort)

lemma strip_trailing_space_tail:
  assumes "\<And>c. c \<in> set b \<Longrightarrow> is_space_char c"
  shows "strip_trailing_space (a @ b) = strip_trailing_space a"
proof -
  have "dropWhile is_space_char (rev b @ rev a) = dropWhile is_space_char (rev a)"
    by (rule dropWhile_append2) (use assms in simp)
  then show ?thesis
    by (simp add: strip_trailing_space_def)
qed

lemma foldl_get_patterns:
  "foldl (\<lambda>acc pat. acc @ f pat) init pats = init @ concat (map f pats)"
  by (induction pats arbitrary: init) simp_all

lemma sort_command_options:
  "sort_command key (Some opts)
     = strip_trailing_space
         (js ''sort '' @ key
          @ js '' '' @ (case byPattern opts of
                          None \<Rightarrow> []
                        | Some pat \<Rightarrow> if pat = [] then [] else js ''by '' @ pat)
          @ js '' '' @ (case limit opts of
                          None \<Rightarrow> []
                        | Some (start, count) \<Rightarrow>
                            js ''limit '' @ int_to_string start @ js '' '' @ int_to_string count)
          @ js '' '' @ concat (map (\<lambda>pat. js ''get '' @ pat @ js '' '')
                                 (case getPatterns opts of None \<Rightarrow> [] | Some pats \<Rightarrow> pats))
          @ js '' '' @ (if ascending opts then [] else js ''desc'')
          @ js '' '' @ (if lexicographically opts then js ''alpha'' else []))
       @ CRLF"
proof -
  define body where "body = js ''sort '' @ key
          @ js '' '' @ (case byPattern opts of
                          None \<Rightarrow> []
                        | Some pat \<Rightarrow> if pat = [] then [] else js ''by '' @ pat)
          @ js '' '' @ (case limit opts of
                          None \<Rightarrow> []
                        | Some (start, count) \<Rightarrow>
                            js ''limit '' @ int_to_string start @ js '' '' @ int_to_string count)
          @ js '' '' @ concat (map (\<lambda>pat. js ''get '' @ pat @ js '' '')
                                 (case getPatterns opts of None \<Rightarrow> [] | Some pats \<Rightarrow> pats))
          @ js '' '' @ (if ascending opts then [] else js ''desc'')
          @ js '' '' @ (if lexicographically opts then js ''alpha'' else [])"
  have ws: "\<And>c. c \<in> set (js '' '' @ CRLF) \<Longrightarrow> is_space_char c"
    by (auto simp: CRLF_def is_space_char_def)
  have "sort_command key (Some opts) = strip_trailing_space (body @ (js '' '' @ CRLF)) @ CRLF"
    by (cases "getPatterns opts")
      (simp_all add: sort_command_def Let_def body_def foldl_get_patterns [where init = "[]"])
  then show ?thesis
    unfolding body_def by (simp only: strip_trailing_space_tail [OF ws])
qed

lemma sort_command_not_multibulk:
  "sort_command key options \<noteq> formatMultiBulkCommand commandName commandArgs"
proof -
  obtain r where "sort_command key options = js ''sort'' @ r"
    using sort_command_prefix by blast
  then show ?thesis
    by (simp add: formatMultiBulkCommand_eq)
qed

lemma processResponse_empty_multibulk:
  assumes "conn st = Some c" "pending (ins c) = js ''*0'' @ CRLF @ rest"
    and "\<exists>r. currentCmd st = js ''sort'' @ r"
  shows "processResponse st
           = (Inr (Array []), st\<lparr>conn := Some (c\<lparr>ins := (ins c)\<lparr>pending := rest\<rparr>\<rparr>)\<rparr>)"
proof -
  obtain p e ks where ic: "ins c = \<lparr>pending = p, eof_exn = e, chunks = ks\<rparr>"
    by (cases "ins c") auto
  have p: "p = 42 # 48 # CRLF @ rest" using assms(2) ic by simp
  have rd: "stream_read \<lparr>pending = p, eof_exn = e, chunks = ks\<rparr>
      = (Inr 42, \<lparr>pending = 48 # CRLF @ rest, eof_exn = e, chunks = ks\<rparr>)"
    by (simp add: stream_read_def p)
  have line: "readToCRLF \<lparr>pending = 48 # CRLF @ rest, eof_exn = e, chunks = ks\<rparr>
      = (Inr (Some [48]), \<lparr>pending = rest, eof_exn = e, chunks = ks\<rparr>)"
    using readToCRLF_line [of "[48]" rest e] by simp
  have pi: "parseInt (Some [48]) = Some 0"
    using parseInt_decimal [of 0] by (simp add: decimal_small)
  have post: "postProcessResults (Array []) (currentCmd st) = Inr (Array [])"
    using assms(3) by (auto simp: postProcessResults_def)
  show ?thesis
    by (simp add: processResponse_def assms(1) rd replyPrefixToHandler_def on_stream_def
        handleMultiBulkReply_def line pi post ic)
qed


lemmas run_defs = createCommandSender_def idle_client_def fresh_socket_def writeCmd_def
  processResponse_def stream_read_def fatal_def reconnect_def connect_def quit_def
  replyPrefixToHandler_def on_stream_def handleBulkReply_def handleErrorReply_def
  errorReplyMessage_def readToCRLF_def CRLF_def parseInt_def is_space_char_def is_digit_def
  digits_value_def stream_read_buf_def stream_skip_def bulk_value_def postProcessResults_def
  Let_def

lemma get_known: "js ''get'' \<in> set commands"
  by (simp add: commands_def)


lemma processResponse_end_of_stream:
  assumes "conn st = Some c" "pending (ins c) = []" "eof_exn (ins c) = None"
  shows "processResponse st = (Inl (Error (js ''Redis connection timeout'')), st)"
proof -
  have "st\<lparr>conn := Some (c\<lparr>ins := ins c\<rparr>)\<rparr> = st"
    using assms(1) by (auto intro!: state.equality)
  then show ?thesis
    using assms by (simp add: processResponse_def stream_read_def Let_def)
qed

lemma end_of_stream_is_retried_once:
  assumes "commandName \<in> set commands" "conn st = Some c" "out_exn c = None"
    and "pending (ins c) = []" "eof_exn (ins c) = None"
    and "network st = d # ds" "out_exn d = None"
  shows "createCommandSender commandName commandArgs st
           = processResponse
               (st\<lparr>currentCmd := commandName,
                   conn := Some (d\<lparr>written := written d
                                    @ [formatMultiBulkCommand commandName commandArgs]\<rparr>),
                   network := ds,
                   dropped := c\<lparr>written := written c
                                   @ [formatMultiBulkCommand commandName commandArgs,
                                      js ''quit'']\<rparr> # dropped st\<rparr>)"
proof -
  define cmd where "cmd = formatMultiBulkCommand commandName commandArgs"
  define st3 where "st3 = st\<lparr>currentCmd := commandName,
                              conn := Some (c\<lparr>written := written c @ [cmd]\<rparr>)\<rparr>"
  have first: "processResponse st3 = (Inl (Error (js ''Redis connection timeout'')), st3)"
    by (rule processResponse_end_of_stream [where c = "c\<lparr>written := written c @ [cmd]\<rparr>"])
      (use assms in \<open>simp_all add: st3_def\<close>)
  have sender: "createCommandSender commandName commandArgs st
      = tryCatch (processResponse st3)
          (\<lambda>e st4. andThen (reconnect st4)
             (\<lambda>_ st5. andThen (writeCmd cmd st5) (\<lambda>_ st6. processResponse st6)))"
    using assms(1-3) by (simp add: createCommandSender_def writeCmd_def st3_def cmd_def)
  show ?thesis
    unfolding cmd_def [symmetric]
    apply (simp only: sender first tryCatch_Inl)
    apply (auto simp: reconnect_def quit_def writeCmd_def st3_def assms
        intro!: arg_cong [where f = processResponse] state.equality)
    done
qed

lemma second_end_of_stream_is_final:
  assumes "commandName \<in> set commands" "conn st = Some c" "out_exn c = None"
    and "pending (ins c) = []" "eof_exn (ins c) = None"
    and "network st = d # ds" "out_exn d = None"
    and "pending (ins d) = []" "eof_exn (ins d) = None"
  shows "createCommandSender commandName commandArgs st
           = (Inl (Error (js ''Redis connection timeout'')),
              st\<lparr>currentCmd := commandName,
                  conn := Some (d\<lparr>written := written d
                                   @ [formatMultiBulkCommand commandName commandArgs]\<rparr>),
                  network := ds,
                  dropped := c\<lparr>written := written c
                                  @ [formatMultiBulkCommand commandName commandArgs,
                                     js ''quit'']\<rparr> # dropped st\<rparr>)"
  unfolding end_of_stream_is_retried_once [OF assms(1-7)]
  by (rule processResponse_end_of_stream [where
        c = "d\<lparr>written := written d @ [formatMultiBulkCommand commandName commandArgs]\<rparr>"])
    (use assms in simp_all)


text \<open>
  An empty line is not recognised: the test \<open>buf.length() > 2\<close> passes over a CR LF
  that stands at the very start of what is read, and the reader goes on to the next one.
\<close>

lemma readToCRLF_skips_empty_line:
  "readToCRLF \<lparr>pending = CRLF @ js ''ab'' @ CRLF, eof_exn = None, chunks = []\<rparr>
     = (Inr (Some (CRLF @ js ''ab'')), \<lparr>pending = [], eof_exn = None, chunks = []\<rparr>)"
  by (simp add: readToCRLF_def CRLF_def)

section \<open>The claims\<close>

subsection \<open>C1: a failed first write\<close>

text \<open>
  Claim C1 asks for one recovery cycle when the write of the encoded command or the
  decode of its reply fails at the transport level, the first write included. The
  sender of a table command places its first \<open>writeCmd\<close> before the \<open>try\<close>: when that
  write raises, \<open>fatal\<close> closes the connection and its error reaches the caller at once.
  No socket is opened, nothing is sent again. (\<open>select\<close> has the write inside the
  \<open>try\<close> and does retry: \<open>select_retries_after_write_failure\<close>. A failed decode is
  retried once and a second failure is final: \<open>end_of_stream_is_retried_once\<close>,
  \<open>second_end_of_stream_is_final\<close>.)
\<close>

theorem first_write_failure_is_not_retried:
  assumes "commandName \<in> set commands" "conn st = Some c" "out_exn c = Some e"
  shows "createCommandSender commandName commandArgs st
           = (Inl (Error (js ''Error occured processing CMD:''
                            @ formatMultiBulkCommand commandName commandArgs @ js '': '' @ e)),
              st\<lparr>currentCmd := commandName, conn := None, dropped := c # dropped st\<rparr>)"
  using assms by (simp add: createCommandSender_def writeCmd_def fatal_def)

theorem first_write_failure_is_not_retried_witness:
  "js ''get'' \<in> set commands
   \<and> createCommandSender (js ''get'') [js ''foo'']
        (idle_client
           (Some ((fresh_socket [])\<lparr>out_exn := Some (js ''java.net.SocketException: Broken pipe'')\<rparr>))
           [fresh_socket (js ''$3'' @ CRLF @ js ''bar'' @ CRLF)])
     = (Inl (Error (js ''Error occured processing CMD:''
                      @ formatMultiBulkCommand (js ''get'') [js ''foo'']
                      @ js '': java.net.SocketException: Broken pipe'')),
        \<lparr>currentCmd = js ''get'', conn = None,
         network = [fresh_socket (js ''$3'' @ CRLF @ js ''bar'' @ CRLF)],
         dropped = [(fresh_socket [])\<lparr>out_exn := Some (js ''java.net.SocketException: Broken pipe'')\<rparr>]\<rparr>)"
  using first_write_failure_is_not_retried [OF get_known, where
      st = "idle_client
           (Some ((fresh_socket [])\<lparr>out_exn := Some (js ''java.net.SocketException: Broken pipe'')\<rparr>))
           [fresh_socket (js ''$3'' @ CRLF @ js ''bar'' @ CRLF)]"
      and c = "(fresh_socket [])\<lparr>out_exn := Some (js ''java.net.SocketException: Broken pipe'')\<rparr>"
      and e = "js ''java.net.SocketException: Broken pipe''" and commandArgs = "[js ''foo'']"]
    get_known
  by (simp add: idle_client_def fresh_socket_def)

subsection \<open>C2: a reply with an unknown prefix\<close>

text \<open>
  Claim C2 says that a reply whose first byte is none of \<open>+ - : $ *\<close> fails, closes the
  connection and is never followed by a second send. The handler of the \<open>try\<close> catches
  every error of \<open>processResponse\<close>, this one too. Here the first reply is \<open>!\<close>; the
  command is sent again on the next socket and the caller receives the value decoded
  there.
\<close>

theorem invalid_prefix_counterexample:
  "createCommandSender (js ''get'') [js ''foo'']
     (idle_client (Some (fresh_socket (js ''!'')))
        [fresh_socket (js ''$3'' @ CRLF @ js ''bar'' @ CRLF)])
   = (Inr (String (js ''bar'')),
      \<lparr>currentCmd = js ''get'',
       conn = Some ((fresh_socket [])\<lparr>written := [formatMultiBulkCommand (js ''get'') [js ''foo'']]\<rparr>),
       network = [],
       dropped = [(fresh_socket [])\<lparr>written := [formatMultiBulkCommand (js ''get'') [js ''foo'']]\<rparr>]\<rparr>)"
  using get_known by (simp add: run_defs)

text \<open>
  C2 as the code has it: the decode fails with the error of \<open>fatal\<close> and the connection
  is closed; then the sender runs its recovery cycle once. Without a socket to open, the
  error of the connection attempt is thrown; with one, the command is written to it and
  the outcome is that of decoding its reply.
\<close>

theorem invalid_prefix_closes_then_retries_once:
  assumes "commandName \<in> set commands" "conn st = Some c" "out_exn c = None"
    and "pending (ins c) = b # bs" "b \<notin> set (js ''-+$*:'')"
  shows "let cmd = formatMultiBulkCommand commandName commandArgs;
             closed = st\<lparr>currentCmd := commandName, conn := None,
                         dropped := c\<lparr>ins := (ins c)\<lparr>pending := bs\<rparr>,
                                      written := written c @ [cmd]\<rparr> # dropped st\<rparr>
         in processResponse (st\<lparr>currentCmd := commandName,
                                conn := Some (c\<lparr>written := written c @ [cmd]\<rparr>)\<rparr>)
              = (Inl (Error (js ''invalid Redis type Prefix:'' @ [b] @ js '' byte:'' @ decimal b)),
                 closed)
            \<and> (network st = [] \<longrightarrow>
                 createCommandSender commandName commandArgs st
                   = (Inl (JavaException (js ''java.net.ConnectException'')), closed))
            \<and> (network st = d # ds \<and> out_exn d = None \<longrightarrow>
                 createCommandSender commandName commandArgs st
                   = processResponse
                       (closed\<lparr>conn := Some (d\<lparr>written := written d @ [cmd]\<rparr>),
                               network := ds\<rparr>))"
proof -
  define cmd where "cmd = formatMultiBulkCommand commandName commandArgs"
  define st3 where "st3 = st\<lparr>currentCmd := commandName,
                              conn := Some (c\<lparr>written := written c @ [cmd]\<rparr>)\<rparr>"
  have first: "processResponse st3
      = (Inl (Error (js ''invalid Redis type Prefix:'' @ [b] @ js '' byte:'' @ decimal b)),
         st3\<lparr>conn := None,
             dropped := (c\<lparr>written := written c @ [cmd]\<rparr>)
                          \<lparr>ins := (ins (c\<lparr>written := written c @ [cmd]\<rparr>))\<lparr>pending := bs\<rparr>\<rparr>
                        # dropped st3\<rparr>)"
    by (rule processResponse_invalid_prefix) (use assms in \<open>simp_all add: st3_def\<close>)
  have sender: "createCommandSender commandName commandArgs st
      = tryCatch (processResponse st3)
          (\<lambda>e st4. andThen (reconnect st4)
             (\<lambda>_ st5. andThen (writeCmd cmd st5) (\<lambda>_ st6. processResponse st6)))"
    using assms(1-3) by (simp add: createCommandSender_def writeCmd_def st3_def cmd_def)
  show ?thesis
    unfolding Let_def cmd_def [symmetric]
    apply (intro conjI impI)
    subgoal using first by (auto simp: st3_def intro!: state.equality)
    subgoal
      apply (simp only: sender first tryCatch_Inl)
      apply (auto simp: reconnect_def st3_def intro!: state.equality)
      done
    subgoal
      apply (simp only: sender first tryCatch_Inl)
      apply (auto simp: reconnect_def writeCmd_def st3_def
          intro!: arg_cong [where f = processResponse] state.equality)
      done
    done
qed

theorem invalid_prefix_closes_then_retries_once_witness:
  "js ''get'' \<in> set commands \<and> 33 \<notin> set (js ''-+$*:'')
   \<and> createCommandSender (js ''get'') [js ''foo'']
        (idle_client (Some (fresh_socket (js ''!'')))
           [fresh_socket (js ''$3'' @ CRLF @ js ''bar'' @ CRLF)])
     = processResponse
         \<lparr>currentCmd = js ''get'',
          conn = Some ((fresh_socket (js ''$3'' @ CRLF @ js ''bar'' @ CRLF))
                        \<lparr>written := [formatMultiBulkCommand (js ''get'') [js ''foo'']]\<rparr>),
          network = [],
          dropped = [(fresh_socket [])\<lparr>written := [formatMultiBulkCommand (js ''get'') [js ''foo'']]\<rparr>]\<rparr>"
  using invalid_prefix_closes_then_retries_once [OF get_known, where
      st = "idle_client (Some (fresh_socket (js ''!'')))
              [fresh_socket (js ''$3'' @ CRLF @ js ''bar'' @ CRLF)]"
      and c = "fresh_socket (js ''!'')" and b = 33 and bs = "[]"
      and d = "fresh_socket (js ''$3'' @ CRLF @ js ''bar'' @ CRLF)" and ds = "[]"
      and commandArgs = "[js ''foo'']"]
    get_known
  by (simp add: idle_client_def fresh_socket_def Let_def)

subsection \<open>C3: an error reply of the server\<close>

text \<open>
  Claim C3 says that an error reply (prefix \<open>-\<close>) reaches the caller without a second
  send and leaves the connection open. The error thrown by \<open>handleErrorReply\<close> is caught
  like any other: \<open>reconnect\<close> sends \<open>quit\<close> on the connection and closes it, the command
  goes out again on a new socket, and here the caller receives the value of the second
  reply.
\<close>

theorem error_reply_counterexample:
  "createCommandSender (js ''get'') [js ''foo'']
     (idle_client (Some (fresh_socket (js ''-ERR boom'' @ CRLF)))
        [fresh_socket (js ''$3'' @ CRLF @ js ''bar'' @ CRLF)])
   = (Inr (String (js ''bar'')),
      \<lparr>currentCmd = js ''get'',
       conn = Some ((fresh_socket [])\<lparr>written := [formatMultiBulkCommand (js ''get'') [js ''foo'']]\<rparr>),
       network = [],
       dropped = [(fresh_socket [])\<lparr>written := [formatMultiBulkCommand (js ''get'') [js ''foo''],
                                                   js ''quit'']\<rparr>]\<rparr>)"
  using get_known by (simp add: run_defs)

text \<open>
  C3 as the code has it: the decode throws the message of the error reply and leaves the
  connection open; the sender then runs its recovery cycle once (\<open>quit\<close> on the old
  connection, which is closed, and the command sent again on a new one). A second error
  reply is thrown to the caller, and the new connection stays open.
\<close>

theorem error_reply_is_retried_once:
  assumes "commandName \<in> set commands" "conn st = Some c" "out_exn c = None"
    and "pending (ins c) = js ''-'' @ line @ CRLF @ rest" "line \<noteq> []" "\<not> has_crlf line"
  shows "let cmd = formatMultiBulkCommand commandName commandArgs;
             c1 = c\<lparr>ins := (ins c)\<lparr>pending := rest\<rparr>, written := written c @ [cmd]\<rparr>;
             retried = st\<lparr>currentCmd := commandName,
                          conn := Some (d\<lparr>written := written d @ [cmd]\<rparr>),
                          network := ds,
                          dropped := c1\<lparr>written := written c @ [cmd, js ''quit'']\<rparr> # dropped st\<rparr>
         in processResponse (st\<lparr>currentCmd := commandName,
                                conn := Some (c\<lparr>written := written c @ [cmd]\<rparr>)\<rparr>)
              = (Inl (Error (errorReplyMessage line)),
                 st\<lparr>currentCmd := commandName, conn := Some c1\<rparr>)
            \<and> (network st = d # ds \<and> out_exn d = None \<longrightarrow>
                 createCommandSender commandName commandArgs st = processResponse retried)
            \<and> (network st = d # ds \<and> out_exn d = None
                 \<and> pending (ins d) = js ''-'' @ line' @ CRLF @ rest'
                 \<and> line' \<noteq> [] \<and> \<not> has_crlf line' \<longrightarrow>
                 createCommandSender commandName commandArgs st
                   = (Inl (Error (errorReplyMessage line')),
                      retried\<lparr>conn := Some (d\<lparr>ins := (ins d)\<lparr>pending := rest'\<rparr>,
                                                written := written d @ [cmd]\<rparr>)\<rparr>))"
proof -
  define cmd where "cmd = formatMultiBulkCommand commandName commandArgs"
  define cw where "cw = c\<lparr>written := written c @ [cmd]\<rparr>"
  define st3 where "st3 = st\<lparr>currentCmd := commandName, conn := Some cw\<rparr>"
  define retried where "retried = st\<lparr>currentCmd := commandName,
                          conn := Some (d\<lparr>written := written d @ [cmd]\<rparr>),
                          network := ds,
                          dropped := c\<lparr>ins := (ins c)\<lparr>pending := rest\<rparr>,
                                       written := written c @ [cmd, js ''quit'']\<rparr> # dropped st\<rparr>"
  have first: "processResponse st3
      = (Inl (Error (errorReplyMessage line)),
         st3\<lparr>conn := Some (cw\<lparr>ins := (ins cw)\<lparr>pending := rest\<rparr>\<rparr>)\<rparr>)"
    by (rule processResponse_error_reply) (use assms in \<open>simp_all add: st3_def cw_def\<close>)
  have sender: "createCommandSender commandName commandArgs st
      = tryCatch (processResponse st3)
          (\<lambda>e st4. andThen (reconnect st4)
             (\<lambda>_ st5. andThen (writeCmd cmd st5) (\<lambda>_ st6. processResponse st6)))"
    using assms(1-3) by (simp add: createCommandSender_def writeCmd_def st3_def cmd_def cw_def)
  have resend: "network st = d # ds \<Longrightarrow> out_exn d = None \<Longrightarrow>
      createCommandSender commandName commandArgs st = processResponse retried"
    apply (simp only: sender first tryCatch_Inl)
    apply (auto simp: reconnect_def quit_def writeCmd_def st3_def cw_def retried_def assms(3)
        intro!: arg_cong [where f = processResponse] state.equality)
    done
  have second: "pending (ins d) = js ''-'' @ line' @ CRLF @ rest' \<Longrightarrow>
      line' \<noteq> [] \<Longrightarrow> \<not> has_crlf line' \<Longrightarrow>
      processResponse retried
        = (Inl (Error (errorReplyMessage line')),
           retried\<lparr>conn := Some ((d\<lparr>written := written d @ [cmd]\<rparr>)
                       \<lparr>ins := (ins (d\<lparr>written := written d @ [cmd]\<rparr>))\<lparr>pending := rest'\<rparr>\<rparr>)\<rparr>)"
    by (rule processResponse_error_reply) (simp_all add: retried_def)
  show ?thesis
    unfolding Let_def cmd_def [symmetric]
    apply (intro conjI impI)
    subgoal using first by (auto simp: st3_def cw_def intro!: state.equality)
    subgoal using resend by (simp add: retried_def)
    subgoal premises prems
    proof -
      have r: "createCommandSender commandName commandArgs st = processResponse retried"
        using prems resend by blast
      have s: "processResponse retried
        = (Inl (Error (errorReplyMessage line')),
           retried\<lparr>conn := Some ((d\<lparr>written := written d @ [cmd]\<rparr>)
                       \<lparr>ins := (ins (d\<lparr>written := written d @ [cmd]\<rparr>))\<lparr>pending := rest'\<rparr>\<rparr>)\<rparr>)"
        using prems second by blast
      show ?thesis
        unfolding r s by (auto simp: retried_def intro!: state.equality)
    qed
    done
qed

theorem error_reply_is_retried_once_witness:
  "js ''get'' \<in> set commands \<and> js ''ERR boom'' \<noteq> [] \<and> \<not> has_crlf (js ''ERR boom'')
   \<and> js ''ERR again'' \<noteq> [] \<and> \<not> has_crlf (js ''ERR again'')
   \<and> createCommandSender (js ''get'') [js ''foo'']
        (idle_client (Some (fresh_socket (js ''-ERR boom'' @ CRLF)))
           [fresh_socket (js ''-ERR again'' @ CRLF)])
     = (Inl (Error (js ''again'')),
        \<lparr>currentCmd = js ''get'',
         conn = Some ((fresh_socket [])\<lparr>written := [formatMultiBulkCommand (js ''get'') [js ''foo'']]\<rparr>),
         network = [],
         dropped = [(fresh_socket [])\<lparr>written := [formatMultiBulkCommand (js ''get'') [js ''foo''],
                                                     js ''quit'']\<rparr>]\<rparr>)"
proof -
  have h2: "conn (idle_client (Some (fresh_socket (js ''-ERR boom'' @ CRLF)))
                 [fresh_socket (js ''-ERR again'' @ CRLF)])
              = Some (fresh_socket (js ''-ERR boom'' @ CRLF))"
    by (simp add: idle_client_def)
  have h3: "out_exn (fresh_socket (js ''-ERR boom'' @ CRLF)) = None"
    by (simp add: fresh_socket_def)
  have h4: "pending (ins (fresh_socket (js ''-ERR boom'' @ CRLF)))
              = js ''-'' @ js ''ERR boom'' @ CRLF @ []"
    by (simp add: fresh_socket_def)
  have h5: "js ''ERR boom'' \<noteq> []" and h6: "\<not> has_crlf (js ''ERR boom'')"
    by simp_all
  have h7: "js ''ERR again'' \<noteq> []" and h8: "\<not> has_crlf (js ''ERR again'')"
    by simp_all
  show ?thesis
    using error_reply_is_retried_once [OF get_known h2 h3 h4 h5 h6, where
        d = "fresh_socket (js ''-ERR again'' @ CRLF)" and ds = "[]"
        and line' = "js ''ERR again''" and rest' = "[]" and commandArgs = "[js ''foo'']",
        unfolded Let_def, THEN conjunct2, THEN conjunct2]
      get_known h5 h6 h7 h8
    by (simp add: idle_client_def fresh_socket_def errorReplyMessage_def)
qed

subsection \<open>C4: what is written on the wire\<close>

text \<open>
  Claim C4 says that multibulk framing is the only framing, also for \<open>sort\<close> and \<open>quit\<close>.
  \<open>quit\<close> writes the four characters \<open>quit\<close>, which is not the multibulk encoding of
  that command.
\<close>

theorem quit_counterexample:
  "quit (idle_client (Some (fresh_socket [])) [])
     = (Inr (), \<lparr>currentCmd = [], conn = None, network = [],
                 dropped = [(fresh_socket [])\<lparr>written := [js ''quit'']\<rparr>]\<rparr>)
   \<and> js ''quit'' \<noteq> formatMultiBulkCommand (js ''quit'') []"
  by (simp add: run_defs formatMultiBulkCommand_def)

text \<open>
  C4 as the code has it. For a command of the table, the bytes on the wire are the
  count line followed by one bulk frame for the name and one per argument, each frame
  declaring the number of UTF-8 bytes of its payload; the length declared for the name is
  its character count, which is its UTF-8 length because the names of the table are
  ASCII. The special cases do not use this framing: \<open>quit\<close> writes \<open>quit\<close>, and \<open>sort\<close>
  writes a line of text. Without options the line is \<open>sort\<close>, a space and the key, with
  no CR LF. With options it is \<open>sort\<close> and the key followed by the \<open>by\<close>, \<open>limit\<close>, \<open>get\<close>,
  \<open>desc\<close> and \<open>alpha\<close> parts, each after one space and empty when the option is not set,
  with the white space at the end removed and CR LF appended. In no case is the line
  the multibulk encoding of a command.
\<close>

theorem table_commands_use_multibulk_framing:
  "(commandName \<in> set commands \<longrightarrow>
      utf8_encode (formatMultiBulkCommand commandName commandArgs)
        = js ''*'' @ decimal (length commandArgs + 1) @ CRLF
          @ bulk_frame (utf8_encode commandName)
          @ concat (map (\<lambda>arg. bulk_frame (utf8_encode arg)) commandArgs)
      \<and> js_length commandName = length (utf8_encode commandName))
   \<and> (conn st = Some c \<and> out_exn c = None \<longrightarrow>
        quit st = (Inr (), st\<lparr>conn := None,
                             dropped := c\<lparr>written := written c @ [js ''quit'']\<rparr> # dropped st\<rparr>))
   \<and> (\<exists>r. sort_command key options = js ''sort'' @ r)
   \<and> sort_command key None = js ''sort '' @ key
   \<and> sort_command key (Some opts)
       = strip_trailing_space
           (js ''sort '' @ key
            @ js '' '' @ (case byPattern opts of
                            None \<Rightarrow> []
                          | Some pat \<Rightarrow> if pat = [] then [] else js ''by '' @ pat)
            @ js '' '' @ (case limit opts of
                            None \<Rightarrow> []
                          | Some (start, count) \<Rightarrow>
                              js ''limit '' @ int_to_string start @ js '' '' @ int_to_string count)
            @ js '' '' @ concat (map (\<lambda>pat. js ''get '' @ pat @ js '' '')
                                   (case getPatterns opts of None \<Rightarrow> [] | Some pats \<Rightarrow> pats))
            @ js '' '' @ (if ascending opts then [] else js ''desc'')
            @ js '' '' @ (if lexicographically opts then js ''alpha'' else []))
         @ CRLF
   \<and> sort_command key options \<noteq> formatMultiBulkCommand name args
   \<and> (conn st = Some c \<and> out_exn c = None \<and> pending (ins c) = js ''*0'' @ CRLF @ rest \<longrightarrow>
        sort key options st
          = (Inr (Array []),
             st\<lparr>currentCmd := sort_command key options,
                 conn := Some (c\<lparr>ins := (ins c)\<lparr>pending := rest\<rparr>,
                                 written := written c @ [sort_command key options]\<rparr>)\<rparr>))"
proof (intro conjI impI)
  assume known: "commandName \<in> set commands"
  show "utf8_encode (formatMultiBulkCommand commandName commandArgs)
        = js ''*'' @ decimal (length commandArgs + 1) @ CRLF
          @ bulk_frame (utf8_encode commandName)
          @ concat (map (\<lambda>arg. bulk_frame (utf8_encode arg)) commandArgs)"
    by (rule wire_format [OF commands_ascii [OF known]])
  show "js_length commandName = length (utf8_encode commandName)"
    by (simp add: js_length_ascii utf8_encode_ascii commands_ascii [OF known])
next
  assume "conn st = Some c \<and> out_exn c = None"
  then show "quit st = (Inr (), st\<lparr>conn := None,
                             dropped := c\<lparr>written := written c @ [js ''quit'']\<rparr> # dropped st\<rparr>)"
    by (simp add: quit_open)
next
  show "\<exists>r. sort_command key options = js ''sort'' @ r"
    by (rule sort_command_prefix)
next
  show "sort_command key None = js ''sort '' @ key"
    by (simp add: sort_command_def)
next
  show "sort_command key (Some opts)
       = strip_trailing_space
           (js ''sort '' @ key
            @ js '' '' @ (case byPattern opts of
                            None \<Rightarrow> []
                          | Some pat \<Rightarrow> if pat = [] then [] else js ''by '' @ pat)
            @ js '' '' @ (case limit opts of
                            None \<Rightarrow> []
                          | Some (start, count) \<Rightarrow>
                              js ''limit '' @ int_to_string start @ js '' '' @ int_to_string count)
            @ js '' '' @ concat (map (\<lambda>pat. js ''get '' @ pat @ js '' '')
                                   (case getPatterns opts of None \<Rightarrow> [] | Some pats \<Rightarrow> pats))
            @ js '' '' @ (if ascending opts then [] else js ''desc'')
            @ js '' '' @ (if lexicographically opts then js ''alpha'' else []))
         @ CRLF"
    by (rule sort_command_options)
next
  show "sort_command key options \<noteq> formatMultiBulkCommand name args"
    by (rule sort_command_not_multibulk)
next
  assume a: "conn st = Some c \<and> out_exn c = None \<and> pending (ins c) = js ''*0'' @ CRLF @ rest"
  define cmd where "cmd = sort_command key options"
  define cw where "cw = c\<lparr>written := written c @ [cmd]\<rparr>"
  define st3 where "st3 = st\<lparr>currentCmd := cmd, conn := Some cw\<rparr>"
  have reply: "processResponse st3
      = (Inr (Array []), st3\<lparr>conn := Some (cw\<lparr>ins := (ins cw)\<lparr>pending := rest\<rparr>\<rparr>)\<rparr>)"
    by (rule processResponse_empty_multibulk)
      (use a sort_command_prefix [of key options] in \<open>simp_all add: st3_def cw_def cmd_def\<close>)
  have "sort key options st
      = tryCatch (processResponse st3)
          (\<lambda>e st4. andThen (reconnect st4)
             (\<lambda>_ st5. andThen (writeCmd cmd st5) (\<lambda>_ st6. processResponse st6)))"
    using a by (simp add: sort_def writeCmd_def st3_def cw_def cmd_def Let_def)
  then have "sort key options st
      = (Inr (Array []), st3\<lparr>conn := Some (cw\<lparr>ins := (ins cw)\<lparr>pending := rest\<rparr>\<rparr>)\<rparr>)"
    by (simp only: reply tryCatch_Inr)
  then show "sort key options st
          = (Inr (Array []),
             st\<lparr>currentCmd := sort_command key options,
                 conn := Some (c\<lparr>ins := (ins c)\<lparr>pending := rest\<rparr>,
                                 written := written c @ [sort_command key options]\<rparr>)\<rparr>)"
    by (auto simp: st3_def cw_def cmd_def intro!: state.equality)
qed

theorem table_commands_use_multibulk_framing_witness:
  "js ''set'' \<in> set commands
   \<and> utf8_encode (formatMultiBulkCommand (js ''set'') [js ''utftest'', [98, 163, 97]])
        = js ''*3'' @ CRLF @ js ''$3'' @ CRLF @ js ''set'' @ CRLF
          @ js ''$7'' @ CRLF @ js ''utftest'' @ CRLF
          @ js ''$4'' @ CRLF @ [98, 194, 163, 97] @ CRLF
   \<and> quit (idle_client (Some (fresh_socket (js ''*0'' @ CRLF))) [])
        = (Inr (), \<lparr>currentCmd = [], conn = None, network = [],
                    dropped = [(fresh_socket (js ''*0'' @ CRLF))\<lparr>written := [js ''quit'']\<rparr>]\<rparr>)
   \<and> sort_command (js ''set0'') None = js ''sort set0''
   \<and> sort_command (js ''set0'')
        (Some \<lparr>byPattern = Some (js ''weight_*''), limit = Some (0, 2),
               getPatterns = Some [js ''object_*''], ascending = False,
               lexicographically = True\<rparr>)
        = js ''sort set0 by weight_* limit 0 2 get object_*  desc alpha'' @ CRLF
   \<and> sort (js ''set0'')
        (Some \<lparr>byPattern = Some (js ''weight_*''), limit = Some (0, 2),
               getPatterns = Some [js ''object_*''], ascending = False,
               lexicographically = True\<rparr>)
        (idle_client (Some (fresh_socket (js ''*0'' @ CRLF))) [])
        = (Inr (Array []),
           \<lparr>currentCmd = js ''sort set0 by weight_* limit 0 2 get object_*  desc alpha'' @ CRLF,
            conn = Some ((fresh_socket [])\<lparr>written :=
                     [js ''sort set0 by weight_* limit 0 2 get object_*  desc alpha'' @ CRLF]\<rparr>),
            network = [], dropped = []\<rparr>)"
proof -
  have body: "strip_trailing_space
       (js ''sort set0 by weight_* limit 0 2 get object_*  desc alpha'')
     = js ''sort set0 by weight_* limit 0 2 get object_*  desc alpha''"
    by (simp add: strip_trailing_space_def is_space_char_def)
  show ?thesis
    using table_commands_use_multibulk_framing [where
        commandName = "js ''set''" and commandArgs = "[js ''utftest'', [98, 163, 97]]"
        and st = "idle_client (Some (fresh_socket (js ''*0'' @ CRLF))) []"
        and c = "fresh_socket (js ''*0'' @ CRLF)" and rest = "[]"
        and key = "js ''set0''"
        and options = "Some \<lparr>byPattern = Some (js ''weight_*''), limit = Some (0, 2),
               getPatterns = Some [js ''object_*''], ascending = False,
               lexicographically = True\<rparr>"
        and opts = "\<lparr>byPattern = Some (js ''weight_*''), limit = Some (0, 2),
               getPatterns = Some [js ''object_*''], ascending = False,
               lexicographically = True\<rparr>"] body
    by (simp add: commands_def idle_client_def fresh_socket_def int_to_string_def
        utf8_encode_def utf8_char_def decimal_small bulk_frame_def)
qed

subsection \<open>C5: round trip of a bulk string\<close>




subsection \<open>C6: a multibulk reply of count -1\<close>



subsection \<open>C7: a command outside the table\<close>



subsection \<open>C8: reading a line\<close>

text \<open>
  Claim C8 says that \<open>readToCRLF\<close> fails with an error when the source ends before a
  terminator. The loop ends and the function returns \<open>undefined\<close>.
\<close>

theorem readToCRLF_counterexample:
  "readToCRLF \<lparr>pending = js ''ab'', eof_exn = None, chunks = []\<rparr>
     = (Inr None, \<lparr>pending = [], eof_exn = None, chunks = []\<rparr>)"
  by (simp add: readToCRLF_def CRLF_def)

text \<open>
  C8 as the code has it: a non-empty line that holds no CR LF and is followed by CR LF is
  returned without its terminator, and the stream stands behind the terminator; when the
  source holds no CR LF at all and ends, the result is \<open>undefined\<close> and no error is
  raised.
\<close>

theorem readToCRLF_returns_line_or_undefined:
  "(line \<noteq> [] \<and> \<not> has_crlf line \<longrightarrow>
      readToCRLF \<lparr>pending = line @ CRLF @ rest, eof_exn = e, chunks = ks\<rparr>
        = (Inr (Some line), \<lparr>pending = rest, eof_exn = e, chunks = ks\<rparr>))
   \<and> (\<not> has_crlf bs \<longrightarrow>
      readToCRLF \<lparr>pending = bs, eof_exn = None, chunks = ks\<rparr>
        = (Inr None, \<lparr>pending = [], eof_exn = None, chunks = ks\<rparr>))"
  using readToCRLF_line [of line rest e] readToCRLF_exhausted [of bs] by blast

theorem readToCRLF_returns_line_or_undefined_witness:
  "js ''testfind'' \<noteq> [] \<and> \<not> has_crlf (js ''testfind'')
   \<and> readToCRLF \<lparr>pending = js ''testfind'' @ CRLF @ [], eof_exn = None, chunks = []\<rparr>
        = (Inr (Some (js ''testfind'')), \<lparr>pending = [], eof_exn = None, chunks = []\<rparr>)
   \<and> \<not> has_crlf (js ''+OK'')
   \<and> readToCRLF \<lparr>pending = js ''+OK'', eof_exn = None, chunks = []\<rparr>
        = (Inr None, \<lparr>pending = [], eof_exn = None, chunks = []\<rparr>)"
  using readToCRLF_returns_line_or_undefined [where
      line = "js ''testfind''" and rest = "[]" and e = None and ks = "[]" and bs = "js ''+OK''"]
  by simp

subsection \<open>C9: the message of an error reply\<close>

text \<open>
  Claim C9 says that a line that does not start with \<open>ERR \<close> is kept as it is. The code
  puts \<open>something bad happened: \<close> in front of it.
\<close>

theorem handleErrorReply_counterexample:
  "handleErrorReply \<lparr>pending = js ''boom'' @ CRLF, eof_exn = None, chunks = []\<rparr>
     = (Inl (Error (js ''something bad happened: boom'')), \<lparr>pending = [], eof_exn = None, chunks = []\<rparr>)"
  by (simp add: handleErrorReply_def readToCRLF_def CRLF_def errorReplyMessage_def)

text \<open>
  C9 as the code has it, for every line that \<open>readToCRLF\<close> returns, and so for every
  non-empty line on the wire: a line that starts with \<open>ERR \<close> loses these four
  characters and nothing else; any other line is prefixed with
  \<open>something bad happened: \<close>.
\<close>

theorem handleErrorReply_message:
  "(readToCRLF stream = (Inr (Some line), stream') \<longrightarrow>
      handleErrorReply stream
        = (Inl (Error (if take 4 line = js ''ERR '' then drop 4 line
                       else js ''something bad happened: '' @ line)),
           stream'))
   \<and> (received \<noteq> [] \<and> \<not> has_crlf received \<longrightarrow>
      handleErrorReply \<lparr>pending = received @ CRLF @ rest, eof_exn = e, chunks = ks\<rparr>
        = (Inl (Error (if take 4 received = js ''ERR '' then drop 4 received
                       else js ''something bad happened: '' @ received)),
           \<lparr>pending = rest, eof_exn = e, chunks = ks\<rparr>))"
  using readToCRLF_line [of received rest e]
  by (simp add: handleErrorReply_def errorReplyMessage_def)

theorem handleErrorReply_message_witness:
  "readToCRLF \<lparr>pending = js ''ERR unknown command'' @ CRLF, eof_exn = None, chunks = []\<rparr>
     = (Inr (Some (js ''ERR unknown command'')), \<lparr>pending = [], eof_exn = None, chunks = []\<rparr>)
   \<and> js ''WRONGTYPE no list'' \<noteq> [] \<and> \<not> has_crlf (js ''WRONGTYPE no list'')
   \<and> handleErrorReply \<lparr>pending = js ''ERR unknown command'' @ CRLF, eof_exn = None, chunks = []\<rparr>
        = (Inl (Error (js ''unknown command'')), \<lparr>pending = [], eof_exn = None, chunks = []\<rparr>)
   \<and> handleErrorReply \<lparr>pending = js ''WRONGTYPE no list'' @ CRLF @ [], eof_exn = None, chunks = []\<rparr>
        = (Inl (Error (js ''something bad happened: WRONGTYPE no list'')),
           \<lparr>pending = [], eof_exn = None, chunks = []\<rparr>)"
proof -
  have h: "readToCRLF \<lparr>pending = js ''ERR unknown command'' @ CRLF, eof_exn = None, chunks = []\<rparr>
     = (Inr (Some (js ''ERR unknown command'')), \<lparr>pending = [], eof_exn = None, chunks = []\<rparr>)"
    by (simp add: readToCRLF_def CRLF_def)
  show ?thesis
    using handleErrorReply_message [where
        stream = "\<lparr>pending = js ''ERR unknown command'' @ CRLF, eof_exn = None, chunks = []\<rparr>"
        and line = "js ''ERR unknown command''" and stream' = "\<lparr>pending = [], eof_exn = None, chunks = []\<rparr>"
        and received = "js ''WRONGTYPE no list''" and rest = "[]" and e = None and ks = "[]"] h
    by simp
qed

subsection \<open>C10: replies turned into booleans\<close>

text \<open>
  Claim C10: for \<open>setnx\<close>, \<open>sadd\<close>, \<open>sismember\<close>, \<open>zadd\<close> and \<open>zrem\<close> the post-processor
  returns false for the number zero and true for every other reply, whatever its type.
\<close>

theorem boolean_commands_map_nonzero_to_true:
  assumes "cmd \<in> {js ''setnx'', js ''sadd'', js ''sismember'', js ''zadd'', js ''zrem''}"
  shows "postProcessResults result cmd = Inr (Bool (result \<noteq> Number 0))"
  using assms by (auto simp: postProcessResults_def)

theorem boolean_commands_map_nonzero_to_true_witness:
  "js ''sadd'' \<in> {js ''setnx'', js ''sadd'', js ''sismember'', js ''zadd'', js ''zrem''}
   \<and> postProcessResults Null (js ''sadd'') = Inr (Bool True)
   \<and> postProcessResults (String (js ''0'')) (js ''sadd'') = Inr (Bool True)
   \<and> postProcessResults NaN (js ''sadd'') = Inr (Bool True)
   \<and> postProcessResults (Number 0) (js ''sadd'') = Inr (Bool False)"
  using boolean_commands_map_nonzero_to_true [of "js ''sadd''" Null]
    boolean_commands_map_nonzero_to_true [of "js ''sadd''" "String (js ''0'')"]
    boolean_commands_map_nonzero_to_true [of "js ''sadd''" NaN]
    boolean_commands_map_nonzero_to_true [of "js ''sadd''" "Number 0"]
  by simp

end
